theory Spec2Isabelle
  imports Main "HOL-Library.Sublist" "HOL-Library.Word"
begin

section \<open>Data model\<close>

text \<open>
  Python strings are sequences of Unicode code points, so a \<open>str\<close> is a list of code
  points here. The substring test \<^verbatim>\<open>m in s\<close> is \<^const>\<open>sublist\<close>. Byte strings are
  lists of 8-bit words.
\<close>

type_synonym pystr = "nat list"
type_synonym bytes = "8 word list"

text \<open>
  A worksheet cell as pandas hands it over: a number, a text, or an empty cell (NaN).
  Numbers carry an integer payload: the extraction only asks whether a cell is numeric
  and, for the cell at row 0 and column 0, what \<^verbatim>\<open>str\<close> prints.
\<close>

datatype cell = Number int | Text pystr | Blank

text \<open>
  A column label: the position that \<^verbatim>\<open>header=None\<close> assigns, or a name.
\<close>

datatype label = Pos nat | Name pystr

record dataframe =
  columns :: "label list"
  rows :: "cell list list"

text \<open>A data frame is rectangular: every row has one cell per column.\<close>

definition wf_df :: "dataframe \<Rightarrow> bool" where
  "wf_df df = list_all (\<lambda>r. length r = length (columns df)) (rows df)"

text \<open>
  The exceptions the two handlers can see. \<open>LibError\<close> is any exception raised inside
  base64, requests, pandas, openpyxl or Flask; \<open>HTTPException\<close> is the one of FastAPI,
  which is a subclass of \<^verbatim>\<open>Exception\<close>; \<open>HTTPError\<close> is what
  \<^verbatim>\<open>raise_for_status\<close> raises; \<open>AttributeError\<close> is raised by \<^verbatim>\<open>data.get\<close> when
  \<open>data\<close> is not an object.
\<close>

datatype exn =
    LibError pystr
  | IndexError
  | ValueError
  | HTTPException nat pystr
  | HTTPError nat
  | AttributeError

datatype header = HeaderNone | HeaderAt nat

text \<open>
  The libraries and the outside world are parameters of the model:
  \<^item> \<open>b64decode\<close>, \<open>b64encode\<close>: the functions of the \<^verbatim>\<open>base64\<close> module;
  \<^item> \<open>requests_get\<close>: \<^verbatim>\<open>requests.get(url, timeout=30)\<close>, an exception or the
    status code and the content of the response;
  \<^item> \<open>read_excel\<close>: \<^verbatim>\<open>pd.read_excel(BytesIO(b), header=h, skiprows=k)\<close>;
  \<^item> \<open>numeric_text\<close>: whether \<^verbatim>\<open>pd.to_numeric\<close> parses a text to a number that is
    not NaN;
  \<^item> \<open>to_excel\<close>: writing the frame through \<^verbatim>\<open>pd.ExcelWriter\<close> (sheet name fixed, no
    index) and reading the buffer back;
  \<^item> \<open>now_stamp\<close>: \<^verbatim>\<open>datetime.now().strftime('%Y%m%d_%H%M%S')\<close>;
  \<^item> \<open>exn_text\<close>: \<^verbatim>\<open>str(e)\<close>;
  \<^item> \<open>repr_labels\<close>: how an f-string prints a list of labels.
\<close>

record env =
  b64decode :: "pystr \<Rightarrow> exn + bytes"
  b64encode :: "bytes \<Rightarrow> pystr"
  requests_get :: "pystr \<Rightarrow> exn + nat \<times> bytes"
  read_excel :: "bytes \<Rightarrow> header \<Rightarrow> nat \<Rightarrow> exn + dataframe"
  numeric_text :: "pystr \<Rightarrow> bool"
  to_excel :: "dataframe \<Rightarrow> exn + bytes"
  now_stamp :: pystr
  exn_text :: "exn \<Rightarrow> pystr"
  repr_labels :: "label list \<Rightarrow> pystr"

subsection \<open>Printing numbers and cells\<close>

fun str_nat :: "nat \<Rightarrow> pystr" where
  "str_nat n = (if n < 10 then [48 + n] else str_nat (n div 10) @ [48 + n mod 10])"

declare str_nat.simps [simp del]

definition str_int :: "int \<Rightarrow> pystr" where
  "str_int i = (if i < 0 then 45 # str_nat (nat (- i)) else str_nat (nat i))"

text \<open>\<^verbatim>\<open>str\<close> of a cell; an empty cell is NaN and prints as \<^verbatim>\<open>nan\<close>.\<close>

fun py_str :: "cell \<Rightarrow> pystr" where
  "py_str (Number n) = str_int n"
| "py_str (Text s) = s"
| "py_str Blank = [110, 97, 110]"

subsection \<open>The data frame operations the handlers use\<close>

definition len_df :: "dataframe \<Rightarrow> nat" where
  "len_df df = length (rows df)"

text \<open>\<^verbatim>\<open>df.iloc[i, j]\<close>\<close>

definition iloc_cell :: "dataframe \<Rightarrow> nat \<Rightarrow> nat \<Rightarrow> exn + cell" where
  "iloc_cell df i j =
     (if i < length (rows df) \<and> j < length (columns df) then Inr (rows df ! i ! j)
      else Inl IndexError)"

text \<open>\<^verbatim>\<open>df.iloc[:, j]\<close>\<close>

definition iloc_col :: "dataframe \<Rightarrow> nat \<Rightarrow> exn + cell list" where
  "iloc_col df j =
     (if j < length (columns df) then Inr (map (\<lambda>r. r ! j) (rows df)) else Inl IndexError)"

text \<open>\<^verbatim>\<open>df.iloc[:, js]\<close> for a list of positions\<close>

definition iloc_cols :: "dataframe \<Rightarrow> nat list \<Rightarrow> exn + dataframe" where
  "iloc_cols df js =
     (if list_all (\<lambda>j. j < length (columns df)) js
      then Inr \<lparr>columns = map (\<lambda>j. columns df ! j) js,
                rows = map (\<lambda>r. map (\<lambda>j. r ! j) js) (rows df)\<rparr>
      else Inl IndexError)"

text \<open>\<^verbatim>\<open>df.columns = names\<close>, which raises when the lengths differ\<close>

definition set_columns :: "dataframe \<Rightarrow> pystr list \<Rightarrow> exn + dataframe" where
  "set_columns df names =
     (if length names = length (columns df) then Inr (df\<lparr>columns := map Name names\<rparr>)
      else Inl ValueError)"

text \<open>\<^verbatim>\<open>pd.to_numeric(c, errors='coerce').notna()\<close> on one cell\<close>

fun numeric_cell :: "env \<Rightarrow> cell \<Rightarrow> bool" where
  "numeric_cell e (Number n) = True"
| "numeric_cell e (Text s) = numeric_text e s"
| "numeric_cell e Blank = False"

text \<open>\<^verbatim>\<open>df[mask]\<close> for a boolean mask with one entry per row\<close>

definition boolean_filter :: "dataframe \<Rightarrow> bool list \<Rightarrow> dataframe" where
  "boolean_filter df keep = df\<lparr>rows := map fst (filter snd (zip (rows df) keep))\<rparr>"

section \<open>The position-based service (excel_api_service.py)\<close>

record ExtractRequest =
  file_url :: pystr
  file_base64 :: "pystr option"

record ExtractResponse =
  success :: bool
  format_type :: pystr
  row_count :: nat
  file_base64 :: pystr
  filename :: pystr
  message :: pystr
  column_names :: "label list"

subsection \<open>Constants of the source\<close>

text \<open>The two markers of line 82: \<^verbatim>\<open>Survey results\<close> and its Chinese title.\<close>

definition MARKER_EN :: pystr where
  "MARKER_EN = [83, 117, 114, 118, 101, 121, 32, 114, 101, 115, 117, 108, 116, 115]"

definition MARKER_ZH :: pystr where
  "MARKER_ZH = [0x6D4B, 0x91CF, 0x6210, 0x679C, 0x8868]"

text \<open>The three values of \<open>format_type\<close> (lines 88, 101 and 138).\<close>

definition FORMAT_SURVEY :: pystr where
  "FORMAT_SURVEY = [0x6D4B, 0x91CF, 0x6210, 0x679C, 0x8868]"

definition FORMAT_SLOPE :: pystr where
  "FORMAT_SLOPE = [0x8FB9, 0x5761, 0x68C0, 0x67E5, 0x8868]"

definition FORMAT_UNKNOWN :: pystr where
  "FORMAT_UNKNOWN = [0x672A, 0x77E5]"

text \<open>Lines 85 and 87: positions and names of the survey layout.\<close>

definition SURVEY_COLUMNS :: "nat list" where
  "SURVEY_COLUMNS = [1, 2, 3, 4]"

definition SURVEY_NAMES :: "pystr list" where
  "SURVEY_NAMES =
     [[0x6D4B, 0x70B9, 0x7F16, 0x53F7], [88, 0x5750, 0x6807], [89, 0x5750, 0x6807],
      [0x9AD8, 0x7A0B, 72]]"

text \<open>Lines 95, 98 and 99: positions and names of the slope layout.\<close>

definition target_columns :: "nat list" where
  "target_columns = [0, 5, 8, 9, 10, 11, 12, 13]"

definition new_column_names :: "pystr list" where
  "new_column_names =
     [[0x7EBF, 0x8DEF, 0x540D], [0x8D85, 0x6B20, 0x6316],
      [0x5B9E, 0x6D4B, 88, 0x6216, 0x91CC, 0x7A0B],
      [0x5B9E, 0x6D4B, 89, 0x6216, 0x504F, 0x8DDD],
      [0x5B9E, 0x6D4B, 90, 0x5750, 0x6807], [0x91CC, 0x7A0B], [0x504F, 0x8DDD],
      [0x8BBE, 0x8BA1, 0x6807, 0x9AD8]]"

text \<open>The fixed parts of the messages and of the file name.\<close>

definition MSG_NO_DATA :: pystr where
  "MSG_NO_DATA = [0x672A, 0x80FD, 0x63D0, 0x53D6, 0x5230, 0x4EFB, 0x4F55, 0x6570, 0x636E]"

definition MSG_PARSE_FAILED :: pystr where
  "MSG_PARSE_FAILED = [0x89E3, 0x6790, 69, 120, 99, 101, 108, 0x5931, 0x8D25, 58, 32]"

definition MSG_DOWNLOAD_FAILED :: pystr where
  "MSG_DOWNLOAD_FAILED =
     [0x4E0B, 0x8F7D, 0x6587, 0x4EF6, 0x5931, 0x8D25, 58, 32, 72, 84, 84, 80, 32]"

definition MSG_NO_SOURCE :: pystr where
  "MSG_NO_SOURCE =
     [0x8BF7, 0x63D0, 0x4F9B, 102, 105, 108, 101, 95, 117, 114, 108, 0x6216,
      102, 105, 108, 101, 95, 98, 97, 115, 101, 54, 52]"

definition success_message :: "pystr \<Rightarrow> nat \<Rightarrow> pystr" where
  "success_message fmt n =
     [0x8BC6, 0x522B, 0x4E3A, 0x3010] @ fmt @
     [0x3011, 0xFF0C, 0x6210, 0x529F, 0x63D0, 0x53D6, 32] @ str_nat n @
     [32, 0x884C, 0x6570, 0x636E]"

definition make_filename :: "pystr \<Rightarrow> pystr \<Rightarrow> pystr" where
  "make_filename fmt stamp =
     [0x63D0, 0x53D6, 0x6570, 0x636E, 95] @ fmt @ [95] @ stamp @ [46, 120, 108, 115, 120]"

subsection \<open>Lines 64 to 75: the bytes of the file\<close>

text \<open>
  The result is paired with the URLs that were requested, in order. A Python string is
  true when it is not empty, an optional one when it is present and not empty.
\<close>

definition fetch_url :: "env \<Rightarrow> pystr \<Rightarrow> (exn + bytes) \<times> pystr list" where
  "fetch_url e url =
     (case requests_get e url of
        Inl x \<Rightarrow> (Inl x, [url])
      | Inr (status_code, content) \<Rightarrow>
          if status_code \<noteq> 200
          then (Inl (HTTPException 400 (MSG_DOWNLOAD_FAILED @ str_nat status_code)), [url])
          else (Inr content, [url]))"

definition get_file_content :: "env \<Rightarrow> ExtractRequest \<Rightarrow> (exn + bytes) \<times> pystr list" where
  "get_file_content e request =
     (if ExtractRequest.file_base64 request \<noteq> None \<and> ExtractRequest.file_base64 request \<noteq> Some []
      then (b64decode e (the (ExtractRequest.file_base64 request)), [])
      else if file_url request \<noteq> []
      then fetch_url e (file_url request)
      else (Inl (HTTPException 400 MSG_NO_SOURCE), []))"

subsection \<open>Lines 78 to 101: classification and extraction\<close>

datatype layout = SurveyResults | SlopeInspection

fun format_name :: "layout \<Rightarrow> pystr" where
  "format_name SurveyResults = FORMAT_SURVEY"
| "format_name SlopeInspection = FORMAT_SLOPE"

text \<open>Line 79.\<close>

definition first_cell :: "dataframe \<Rightarrow> exn + pystr" where
  "first_cell df_raw =
     (if len_df df_raw > 0
      then (case iloc_cell df_raw 0 0 of Inl x \<Rightarrow> Inl x | Inr c \<Rightarrow> Inr (py_str c))
      else Inr [])"

text \<open>The test of line 82, which chooses the branch and with it \<open>format_type\<close>.\<close>

definition classify :: "dataframe \<Rightarrow> exn + layout" where
  "classify df_raw =
     (case first_cell df_raw of
        Inl x \<Rightarrow> Inl x
      | Inr s \<Rightarrow>
          Inr (if sublist MARKER_EN s \<or> sublist MARKER_ZH s then SurveyResults
               else SlopeInspection))"

text \<open>Lines 83 to 87.\<close>

definition extract_survey :: "env \<Rightarrow> bytes \<Rightarrow> exn + dataframe" where
  "extract_survey e file_content =
     (case read_excel e file_content HeaderNone 7 of
        Inl x \<Rightarrow> Inl x
      | Inr df \<Rightarrow>
          (case iloc_col df 2 of
             Inl x \<Rightarrow> Inl x
           | Inr c \<Rightarrow>
               (case iloc_cols (boolean_filter df (map (numeric_cell e) c)) SURVEY_COLUMNS of
                  Inl x \<Rightarrow> Inl x
                | Inr extracted_df \<Rightarrow> set_columns extracted_df SURVEY_NAMES)))"

text \<open>Lines 92 to 100.\<close>

definition valid_indices :: "nat \<Rightarrow> nat list" where
  "valid_indices ncols = filter (\<lambda>i. i < ncols) target_columns"

definition extract_slope :: "env \<Rightarrow> bytes \<Rightarrow> exn + dataframe" where
  "extract_slope e file_content =
     (case read_excel e file_content (HeaderAt 0) 0 of
        Inl x \<Rightarrow> Inl x
      | Inr df \<Rightarrow>
          (case iloc_cols df (valid_indices (length (columns df))) of
             Inl x \<Rightarrow> Inl x
           | Inr extracted_df \<Rightarrow>
               set_columns extracted_df
                 (take (length (valid_indices (length (columns df)))) new_column_names)))"

definition extract_table :: "env \<Rightarrow> bytes \<Rightarrow> exn + dataframe \<times> layout" where
  "extract_table e file_content =
     (case read_excel e file_content HeaderNone 0 of
        Inl x \<Rightarrow> Inl x
      | Inr df_raw \<Rightarrow>
          (case classify df_raw of
             Inl x \<Rightarrow> Inl x
           | Inr SurveyResults \<Rightarrow>
               (case extract_survey e file_content of
                  Inl x \<Rightarrow> Inl x
                | Inr t \<Rightarrow> Inr (t, SurveyResults))
           | Inr SlopeInspection \<Rightarrow>
               (case extract_slope e file_content of
                  Inl x \<Rightarrow> Inl x
                | Inr t \<Rightarrow> Inr (t, SlopeInspection))))"

subsection \<open>Lines 103 to 144: the response\<close>

definition no_data_response :: "pystr \<Rightarrow> ExtractResponse" where
  "no_data_response fmt =
     \<lparr>success = False, format_type = fmt, row_count = 0, file_base64 = [], filename = [],
      message = MSG_NO_DATA, column_names = []\<rparr>"

definition respond :: "env \<Rightarrow> dataframe \<Rightarrow> pystr \<Rightarrow> exn + ExtractResponse" where
  "respond e extracted_df fmt =
     (if len_df extracted_df = 0 then Inr (no_data_response fmt)
      else
        (case to_excel e extracted_df of
           Inl x \<Rightarrow> Inl x
         | Inr excel_bytes \<Rightarrow>
             Inr \<lparr>success = True, format_type = fmt, row_count = len_df extracted_df,
                  file_base64 = b64encode e excel_bytes,
                  filename = make_filename fmt (now_stamp e),
                  message = success_message fmt (len_df extracted_df),
                  column_names = columns extracted_df\<rparr>))"

text \<open>The handler of \<^verbatim>\<open>except Exception\<close>, lines 135 to 144.\<close>

definition failure_response :: "env \<Rightarrow> exn \<Rightarrow> ExtractResponse" where
  "failure_response e x =
     \<lparr>success = False, format_type = FORMAT_UNKNOWN, row_count = 0, file_base64 = [],
      filename = [], message = MSG_PARSE_FAILED @ exn_text e x, column_names = []\<rparr>"

text \<open>
  The handler: every exception raised in the body, the \<open>HTTPException\<close>s of lines 69 and
  75 included, reaches the \<^verbatim>\<open>except\<close> clause.
\<close>

definition extract_excel :: "env \<Rightarrow> ExtractRequest \<Rightarrow> ExtractResponse \<times> pystr list" where
  "extract_excel e request =
     (case get_file_content e request of
        (Inl x, fetched) \<Rightarrow> (failure_response e x, fetched)
      | (Inr file_content, fetched) \<Rightarrow>
          (case extract_table e file_content of
             Inl x \<Rightarrow> (failure_response e x, fetched)
           | Inr (extracted_df, lay) \<Rightarrow>
               (case respond e extracted_df (format_name lay) of
                  Inl x \<Rightarrow> (failure_response e x, fetched)
                | Inr r \<Rightarrow> (r, fetched))))"

subsection \<open>Lines 31 to 34: validation of the request body\<close>

text \<open>
  FastAPI builds the \<open>ExtractRequest\<close> from the JSON body before it calls the handler and
  answers 422 when that fails. The model class declares \<open>file_url: str\<close> with no default,
  so the key is required and must hold a string, and
  \<open>file_base64: Optional[str] = None\<close>, so the key may be absent or null. A key of the
  body is absent (\<open>None\<close>), null or a string.
\<close>

datatype json = JNull | JString pystr

record raw_body =
  body_file_url :: "json option"
  body_file_base64 :: "json option"

definition validate_request :: "raw_body \<Rightarrow> ExtractRequest option" where
  "validate_request body =
     (case body_file_url body of
        None \<Rightarrow> None
      | Some JNull \<Rightarrow> None
      | Some (JString u) \<Rightarrow>
          Some \<lparr>file_url = u,
                file_base64 =
                  (case body_file_base64 body of
                     None \<Rightarrow> None
                   | Some JNull \<Rightarrow> None
                   | Some (JString b) \<Rightarrow> Some b)\<rparr>)"

datatype endpoint_reply = Unprocessable422 | Handled200 ExtractResponse

definition post_extract :: "env \<Rightarrow> raw_body \<Rightarrow> endpoint_reply \<times> pystr list" where
  "post_extract e body =
     (case validate_request body of
        None \<Rightarrow> (Unprocessable422, [])
      | Some request \<Rightarrow>
          (case extract_excel e request of (r, fetched) \<Rightarrow> (Handled200 r, fetched)))"

section \<open>The name-based service (flask_app.py)\<close>

record format_info =
  identifier_columns :: "pystr list"
  extract_columns :: "pystr list"

text \<open>
  Lines 18 to 27. A Python dict keeps its keys in insertion order, so the table is a
  list of pairs: the slope inspection sheet first, the survey sheet second.
\<close>

definition EXCEL_FORMATS :: "(pystr \<times> format_info) list" where
  "EXCEL_FORMATS =
     [([0x8FB9, 0x5761, 0x68C0, 0x67E5, 0x8868],
       \<lparr>identifier_columns = [[0x5E8F, 0x53F7], [0x6869, 0x53F7]],
        extract_columns =
          [[0x5E8F, 0x53F7], [0x6869, 0x53F7], [0x68C0, 0x67E5, 0x65F6, 0x95F4],
           [0x8D23, 0x4EFB, 0x4EBA], [0x95EE, 0x9898, 0x63CF, 0x8FF0],
           [0x6574, 0x6539, 0x63AA, 0x65BD]]\<rparr>),
      ([0x6D4B, 0x91CF, 0x6210, 0x679C, 0x8868],
       \<lparr>identifier_columns = [[0x70B9, 0x53F7], [88, 0x5750, 0x6807]],
        extract_columns =
          [[0x70B9, 0x53F7], [88, 0x5750, 0x6807], [89, 0x5750, 0x6807], [0x9AD8, 0x7A0B],
           [0x5907, 0x6CE8]]\<rparr>)]"

text \<open>Lines 29 to 38; the loop over the items of the table is the recursion.\<close>

fun detect_in :: "(pystr \<times> format_info) list \<Rightarrow> label list \<Rightarrow> pystr option \<times> label list" where
  "detect_in [] cols = (None, cols)"
| "detect_in ((fmt_name, info) # rest) cols =
     (if set (map Name (identifier_columns info)) \<subseteq> set cols
      then (Some fmt_name, map Name (extract_columns info))
      else detect_in rest cols)"

definition detect_excel_format :: "dataframe \<Rightarrow> pystr option \<times> label list" where
  "detect_excel_format df = detect_in EXCEL_FORMATS (columns df)"

text \<open>Lines 40 to 43.\<close>

definition read_excel_from_base64 :: "env \<Rightarrow> pystr \<Rightarrow> exn + dataframe" where
  "read_excel_from_base64 e base64_string =
     (case b64decode e base64_string of
        Inl x \<Rightarrow> Inl x
      | Inr excel_bytes \<Rightarrow> read_excel e excel_bytes (HeaderAt 0) 0)"

text \<open>
  Lines 45 to 49. \<^verbatim>\<open>raise_for_status\<close> raises for the status codes from 400 to 599.
\<close>

definition read_excel_from_url :: "env \<Rightarrow> pystr \<Rightarrow> exn + dataframe" where
  "read_excel_from_url e url =
     (case requests_get e url of
        Inl x \<Rightarrow> Inl x
      | Inr (status_code, content) \<Rightarrow>
          if 400 \<le> status_code \<and> status_code < 600 then Inl (HTTPError status_code)
          else read_excel e content (HeaderAt 0) 0)"

text \<open>
  A JSON object of a request with the three keys the handler reads; a key that is absent
  is \<open>None\<close>.
\<close>

record request_data =
  data_file_url :: "pystr option"
  data_file_base64 :: "pystr option"
  data_columns :: "label list option"

text \<open>
  What \<^verbatim>\<open>request.get_json()\<close> of line 65 does, inside the \<^verbatim>\<open>try\<close> block:
  \<^item> it raises (a missing or malformed body, a content type that is not JSON);
  \<^item> it returns a value that is false: nothing, null, an empty object or list, zero,
    the empty text;
  \<^item> it returns a true value that is not an object, on which \<^verbatim>\<open>data.get\<close> raises;
  \<^item> it returns an object that is not empty.
\<close>

datatype request_json =
    GetJsonRaised exn
  | JsonFalsy
  | JsonOther
  | JsonObject request_data

text \<open>
  The JSON of the reply: a failure carries the message only, a success the message, the
  detected format, the extracted columns, the row count and the encoded file.
\<close>

datatype reply_json =
    Failed pystr
  | Extracted pystr pystr "label list" nat pystr

fun reply_success :: "reply_json \<Rightarrow> bool" where
  "reply_success (Failed m) = False"
| "reply_success (Extracted m f cs n b) = True"

fun reply_message :: "reply_json \<Rightarrow> pystr" where
  "reply_message (Failed m) = m"
| "reply_message (Extracted m f cs n b) = m"

definition MSG_EMPTY_BODY :: pystr where
  "MSG_EMPTY_BODY = [0x8BF7, 0x6C42, 0x4F53, 0x4E3A, 0x7A7A]"

definition MSG_GIVE_SOURCE :: pystr where
  "MSG_GIVE_SOURCE =
     [0x8BF7, 0x63D0, 0x4F9B, 32, 102, 105, 108, 101, 95, 117, 114, 108, 32, 0x6216, 32,
      102, 105, 108, 101, 95, 98, 97, 115, 101, 54, 52]"

definition MSG_COLUMNS_NOT_FOUND :: pystr where
  "MSG_COLUMNS_NOT_FOUND =
     [0x672A, 0x627E, 0x5230, 0x6307, 0x5B9A, 0x7684, 0x5217, 0x3002, 0x53EF, 0x7528,
      0x5217, 58, 32]"

definition MSG_PROCESSING_FAILED :: pystr where
  "MSG_PROCESSING_FAILED = [0x5904, 0x7406, 0x5931, 0x8D25, 58, 32]"

definition FORMAT_UNRECOGNISED :: pystr where
  "FORMAT_UNRECOGNISED = [0x672A, 0x77E5, 0x683C, 0x5F0F]"

definition extracted_message :: "nat \<Rightarrow> pystr" where
  "extracted_message n =
     [0x6210, 0x529F, 0x63D0, 0x53D6, 32] @ str_nat n @ [32, 0x884C, 0x6570, 0x636E]"

text \<open>Line 92: a list is true when it is present and not empty.\<close>

definition columns_to_extract :: "label list option \<Rightarrow> label list \<Rightarrow> label list" where
  "columns_to_extract custom_columns default_columns =
     (if custom_columns \<noteq> None \<and> custom_columns \<noteq> Some [] then the custom_columns
      else default_columns)"

text \<open>Line 95.\<close>

definition available_columns :: "dataframe \<Rightarrow> label list \<Rightarrow> label list" where
  "available_columns df cols = filter (\<lambda>col. col \<in> set (columns df)) cols"

text \<open>Line 104: \<^verbatim>\<open>df[names]\<close> for labels that all occur in the frame.\<close>

fun index_of :: "'a \<Rightarrow> 'a list \<Rightarrow> nat" where
  "index_of x [] = 0"
| "index_of x (y # ys) = (if x = y then 0 else Suc (index_of x ys))"

definition select_columns :: "dataframe \<Rightarrow> label list \<Rightarrow> dataframe" where
  "select_columns df names =
     \<lparr>columns = names,
      rows = map (\<lambda>r. map (\<lambda>c. r ! index_of c (columns df)) names) (rows df)\<rparr>"

text \<open>Line 117: \<^verbatim>\<open>detected_format or d\<close>.\<close>

definition or_default :: "pystr option \<Rightarrow> pystr \<Rightarrow> pystr" where
  "or_default detected d =
     (case detected of None \<Rightarrow> d | Some f \<Rightarrow> if f = [] then d else f)"

text \<open>Lines 89 to 121, once the frame is read.\<close>

definition extract_from_frame ::
  "env \<Rightarrow> label list option \<Rightarrow> dataframe \<Rightarrow> exn + reply_json \<times> nat" where
  "extract_from_frame e custom_columns df =
     (case detect_excel_format df of
        (detected_format, default_columns) \<Rightarrow>
          if available_columns df (columns_to_extract custom_columns default_columns) = []
          then Inr (Failed (MSG_COLUMNS_NOT_FOUND @ repr_labels e (columns df)), 400)
          else
            (case to_excel e
                    (select_columns df
                       (available_columns df
                          (columns_to_extract custom_columns default_columns))) of
               Inl x \<Rightarrow> Inl x
             | Inr excel_bytes \<Rightarrow>
                 Inr (Extracted
                        (extracted_message
                           (len_df
                              (select_columns df
                                 (available_columns df
                                    (columns_to_extract custom_columns default_columns)))))
                        (or_default detected_format FORMAT_UNRECOGNISED)
                        (available_columns df
                           (columns_to_extract custom_columns default_columns))
                        (len_df
                           (select_columns df
                              (available_columns df
                                 (columns_to_extract custom_columns default_columns))))
                        (b64encode e excel_bytes), 200)))"

text \<open>Lines 123 to 127.\<close>

definition processing_failed :: "env \<Rightarrow> exn \<Rightarrow> reply_json \<times> nat" where
  "processing_failed e x = (Failed (MSG_PROCESSING_FAILED @ exn_text e x), 500)"

text \<open>Lines 78 to 86: which source is read. The URLs requested are returned too.\<close>

definition read_source :: "env \<Rightarrow> request_data \<Rightarrow> (exn + dataframe) option \<times> pystr list" where
  "read_source e d =
     (if data_file_base64 d \<noteq> None \<and> data_file_base64 d \<noteq> Some []
      then (Some (read_excel_from_base64 e (the (data_file_base64 d))), [])
      else if data_file_url d \<noteq> None \<and> data_file_url d \<noteq> Some []
      then (Some (read_excel_from_url e (the (data_file_url d))), [the (data_file_url d)])
      else (None, []))"

text \<open>The handler of \<^verbatim>\<open>/extract\<close>, lines 62 to 127.\<close>

definition extract_excel_flask ::
  "env \<Rightarrow> request_json \<Rightarrow> (reply_json \<times> nat) \<times> pystr list" where
  "extract_excel_flask e data =
     (case data of
        GetJsonRaised x \<Rightarrow> (processing_failed e x, [])
      | JsonFalsy \<Rightarrow> ((Failed MSG_EMPTY_BODY, 400), [])
      | JsonOther \<Rightarrow> (processing_failed e AttributeError, [])
      | JsonObject d \<Rightarrow>
          (case read_source e d of
             (None, fetched) \<Rightarrow> ((Failed MSG_GIVE_SOURCE, 400), fetched)
           | (Some (Inl x), fetched) \<Rightarrow> (processing_failed e x, fetched)
           | (Some (Inr df), fetched) \<Rightarrow>
               (case extract_from_frame e (data_columns d) df of
                  Inl x \<Rightarrow> (processing_failed e x, fetched)
                | Inr r \<Rightarrow> (r, fetched))))"

section \<open>Notions of the specification\<close>

text \<open>
  The text of the cell at row 0 and column 0, the empty string when there is no such
  cell.
\<close>

definition cell00_text :: "dataframe \<Rightarrow> pystr" where
  "cell00_text df =
     (case rows df of
        [] \<Rightarrow> []
      | r # rs \<Rightarrow> (case r of [] \<Rightarrow> [] | c # cs \<Rightarrow> py_str c))"

text \<open>A frame as the parser returns it: rectangular, and with a column if it has a row.\<close>

definition parsed_table :: "dataframe \<Rightarrow> bool" where
  "parsed_table df = (wf_df df \<and> (rows df = [] \<or> columns df \<noteq> []))"

text \<open>The rows whose cell at position 2 parses as a number, in the order of the frame.\<close>

definition discriminant_numeric :: "env \<Rightarrow> cell list \<Rightarrow> bool" where
  "discriminant_numeric e r = numeric_cell e (r ! 2)"

definition numeric_rows :: "env \<Rightarrow> dataframe \<Rightarrow> cell list list" where
  "numeric_rows e df = filter (discriminant_numeric e) (rows df)"

text \<open>The cells of a row at the positions 1, 2, 3 and 4.\<close>

definition survey_cells :: "cell list \<Rightarrow> cell list" where
  "survey_cells r = [r ! 1, r ! 2, r ! 3, r ! 4]"

text \<open>A layout of the format table matches a header when all its identifiers occur in it.\<close>

definition layout_matches :: "label list \<Rightarrow> pystr \<times> format_info \<Rightarrow> bool" where
  "layout_matches cols f = (set (map Name (identifier_columns (snd f))) \<subseteq> set cols)"

text \<open>A client error is a status code from 400 to 499.\<close>

definition client_error :: "nat \<Rightarrow> bool" where
  "client_error status = (400 \<le> status \<and> status < 500)"

fun reply_row_count :: "reply_json \<Rightarrow> nat option" where
  "reply_row_count (Failed m) = None"
| "reply_row_count (Extracted m f cs n b) = Some n"

fun reply_columns :: "reply_json \<Rightarrow> label list option" where
  "reply_columns (Failed m) = None"
| "reply_columns (Extracted m f cs n b) = Some cs"

section \<open>Sample files and a sample world\<close>

text \<open>
  Six small worksheets, each stored under a one-byte file content:
  \<^enum> a survey sheet of five columns: the title row, five empty rows, the row of
    column titles, two measured points and a closing note;
  \<^enum> a slope inspection sheet with a header of nine columns and one row;
  \<^enum> a survey sheet of three columns with one measured point;
  \<^enum> a survey sheet of five columns whose only row after the column titles is a note;
  \<^enum> a sheet with the header of the slope inspection format table and no row;
  \<^enum> a sheet with two columns that no format knows, and one row.
\<close>

definition blank_row :: "nat \<Rightarrow> cell list" where
  "blank_row n = replicate n Blank"

definition survey_title :: cell where
  "survey_title = Text ([0x6D4B, 0x91CF, 0x6210, 0x679C, 0x8868] @ [32, 65, 49])"

definition column_titles :: "cell list" where
  "column_titles = [Text [78, 111], Text [80, 116], Text [88], Text [89], Text [72]]"

definition sample_grid :: "bytes \<Rightarrow> cell list list option" where
  "sample_grid b =
     (if b = [1] then
        Some ([survey_title # blank_row 4] @ replicate 5 (blank_row 5) @ [column_titles] @
              [[Number 1, Text [80, 49], Number 100, Number 200, Number 50],
               [Number 2, Text [80, 50], Number 110, Number 210, Number 51],
               [Blank, Text [110, 111, 116, 101], Blank, Blank, Blank]])
      else if b = [2] then
        Some [map (\<lambda>i. Text [67, 48 + i]) [0..<9], map (\<lambda>i. Number (int i)) [0..<9]]
      else if b = [3] then
        Some ([survey_title # blank_row 2] @ replicate 5 (blank_row 3) @
              [take 3 column_titles] @
              [[Number 1, Text [80, 49], Number 100]])
      else if b = [4] then
        Some ([survey_title # blank_row 4] @ replicate 5 (blank_row 5) @ [column_titles] @
              [[Blank, Text [110, 111, 116, 101], Blank, Blank, Blank]])
      else if b = [5] then
        Some [[Text [0x5E8F, 0x53F7], Text [0x6869, 0x53F7]]]
      else if b = [6] then
        Some [[Text [97], Text [98]], [Number 1, Number 2]]
      else None)"

text \<open>
  The frame pandas makes of a worksheet: without a header the columns are numbered, with
  a header the labels are the texts of the header row; a sheet with no row left gives the
  empty frame.
\<close>

definition frame_of_grid :: "header \<Rightarrow> nat \<Rightarrow> cell list list \<Rightarrow> dataframe" where
  "frame_of_grid h k grid =
     (case h of
        HeaderNone \<Rightarrow>
          (case drop k grid of
             [] \<Rightarrow> \<lparr>columns = [], rows = []\<rparr>
           | r # rs \<Rightarrow> \<lparr>columns = map Pos [0..<length r], rows = r # rs\<rparr>)
      | HeaderAt n \<Rightarrow>
          (case drop (k + n) grid of
             [] \<Rightarrow> \<lparr>columns = [], rows = []\<rparr>
           | r # rs \<Rightarrow> \<lparr>columns = map (\<lambda>c. Name (py_str c)) r, rows = rs\<rparr>))"

definition digits_only :: "pystr \<Rightarrow> bool" where
  "digits_only s = (s \<noteq> [] \<and> list_all (\<lambda>c. 48 \<le> c \<and> c \<le> 57) s)"

text \<open>
  In the sample world the encoding of a byte string lists its bytes as code points, a text
  with an exclamation mark does not decode, one URL answers 200 with the second sample
  file and every other URL answers 404, and a written workbook starts with \<^verbatim>\<open>PK\<close>.
\<close>

definition sample_env :: env where
  "sample_env =
     \<lparr>b64decode = (\<lambda>s. if 33 \<in> set s then Inl (LibError [112, 97, 100]) else Inr (map of_nat s)),
      b64encode = map unat,
      requests_get = (\<lambda>u. if u = [111, 107] then Inr (200, [2]) else Inr (404, [])),
      read_excel =
        (\<lambda>b h k. case sample_grid b of
                    None \<Rightarrow> Inl (LibError [98, 97, 100])
                  | Some g \<Rightarrow> Inr (frame_of_grid h k g)),
      numeric_text = digits_only,
      to_excel = (\<lambda>df. Inr [80, 75]),
      now_stamp = [50, 48, 50, 52, 48, 49, 48, 49, 95, 48, 48, 48, 48, 48, 48],
      exn_text = (\<lambda>x. case x of LibError m \<Rightarrow> m | _ \<Rightarrow> [101, 114, 114]),
      repr_labels = concat \<circ> map (\<lambda>l. case l of Pos n \<Rightarrow> str_nat n | Name s \<Rightarrow> s)\<rparr>"

text \<open>Frames that pandas reads from the sample files.\<close>

definition title_frame :: dataframe where
  "title_frame = \<lparr>columns = [Pos 0, Pos 1], rows = [[survey_title, Blank]]\<rparr>"

definition nine_column_frame :: dataframe where
  "nine_column_frame =
     \<lparr>columns = map (\<lambda>i. Name [67, 48 + i]) [0, 1, 2, 3, 4, 5, 6, 7, 8],
      rows = [map Number [0, 1, 2, 3, 4, 5, 6, 7, 8]]\<rparr>"

definition narrow_frame :: dataframe where
  "narrow_frame =
     \<lparr>columns = [Pos 0, Pos 1, Pos 2], rows = [[Number 1, Text [80, 49], Number 100]]\<rparr>"

definition points_frame :: dataframe where
  "points_frame =
     \<lparr>columns = [Pos 0, Pos 1, Pos 2, Pos 3, Pos 4],
      rows = [[Number 1, Text [80, 49], Number 100, Number 200, Number 50],
              [Number 2, Text [80, 50], Number 110, Number 210, Number 51],
              [Blank, Text [110, 111, 116, 101], Blank, Blank, Blank]]\<rparr>"

definition note_frame :: dataframe where
  "note_frame =
     \<lparr>columns = [Pos 0, Pos 1, Pos 2, Pos 3, Pos 4],
      rows = [[Blank, Text [110, 111, 116, 101], Blank, Blank, Blank]]\<rparr>"

definition header_only_frame :: dataframe where
  "header_only_frame =
     \<lparr>columns = [Name [0x5E8F, 0x53F7], Name [0x6869, 0x53F7]], rows = []\<rparr>"

definition unknown_frame :: dataframe where
  "unknown_frame = \<lparr>columns = [Name [97], Name [98]], rows = [[Number 1, Number 2]]\<rparr>"

text \<open>A header that holds the identifiers of both formats of the table.\<close>

definition both_formats_frame :: dataframe where
  "both_formats_frame =
     \<lparr>columns = [Name [0x70B9, 0x53F7], Name [88, 0x5750, 0x6807], Name [0x5E8F, 0x53F7],
                 Name [0x6869, 0x53F7]],
      rows = []\<rparr>"

text \<open>
  Requests to the position-based service: the first sample file inline together with a
  URL that answers 404, and the fourth sample file inline.
\<close>

definition inline_and_url_request :: ExtractRequest where
  "inline_and_url_request = \<lparr>file_url = [117], file_base64 = Some [1]\<rparr>"

definition note_only_request :: ExtractRequest where
  "note_only_request = \<lparr>file_url = [], file_base64 = Some [4]\<rparr>"

text \<open>
  Bodies sent to the position-based service: the first sample file inline together with a
  URL, and the first sample file inline with no \<open>file_url\<close> key.
\<close>

definition inline_and_url_body :: raw_body where
  "inline_and_url_body =
     \<lparr>body_file_url = Some (JString [117]), body_file_base64 = Some (JString [1])\<rparr>"

definition inline_only_body :: raw_body where
  "inline_only_body = \<lparr>body_file_url = None, body_file_base64 = Some (JString [1])\<rparr>"

text \<open>
  Requests to the name-based service: the fifth sample file inline; a URL that answers
  404; no source; the sixth sample file inline together with a URL; the sixth sample file
  with an empty list of columns; and with a column the file does not have.
\<close>

definition header_only_data :: request_data where
  "header_only_data =
     \<lparr>data_file_url = None, data_file_base64 = Some [5], data_columns = None\<rparr>"

definition missing_file_data :: request_data where
  "missing_file_data =
     \<lparr>data_file_url = Some [117], data_file_base64 = None, data_columns = None\<rparr>"

definition no_source_data :: request_data where
  "no_source_data = \<lparr>data_file_url = None, data_file_base64 = None, data_columns = None\<rparr>"

definition inline_and_url_data :: request_data where
  "inline_and_url_data =
     \<lparr>data_file_url = Some [117], data_file_base64 = Some [6], data_columns = None\<rparr>"

definition empty_columns_data :: request_data where
  "empty_columns_data =
     \<lparr>data_file_url = None, data_file_base64 = Some [6], data_columns = Some []\<rparr>"

definition absent_column_data :: request_data where
  "absent_column_data =
     \<lparr>data_file_url = None, data_file_base64 = Some [6], data_columns = Some [Name [99]]\<rparr>"

text \<open>The library contract a successful response relies on: an encoded workbook is not empty.\<close>

definition encodes_nonempty :: "env \<Rightarrow> bool" where
  "encodes_nonempty e = (\<forall>t bs. to_excel e t = Inr bs \<longrightarrow> b64encode e bs \<noteq> [])"

text \<open>
  The two shapes of a response: a success with a file and a file name, or a failure with
  every field of the artifact empty.
\<close>

definition fully_populated :: "ExtractResponse \<Rightarrow> bool" where
  "fully_populated r =
     (success r \<and> ExtractResponse.file_base64 r \<noteq> [] \<and> filename r \<noteq> [])"

definition empty_failure :: "ExtractResponse \<Rightarrow> bool" where
  "empty_failure r =
     (\<not> success r \<and> ExtractResponse.file_base64 r = [] \<and> filename r = []
      \<and> column_names r = [] \<and> row_count r = 0)"

section \<open>Properties\<close>

subsection \<open>Evaluating the sample world\<close>

lemma upt_9: "[0..<9] = [0, 1, 2, 3, 4, 5, 6, 7, 8]"
  by (simp add: upt_conv_Cons)

lemma read_nine_columns:
  "read_excel sample_env [2] (HeaderAt 0) 0 = Inr nine_column_frame"
  by (simp add: sample_env_def sample_grid_def frame_of_grid_def nine_column_frame_def
      upt_9 str_int_def str_nat.simps)

lemma read_narrow:
  "read_excel sample_env [3] HeaderNone 7 = Inr narrow_frame"
  by (simp add: sample_env_def sample_grid_def frame_of_grid_def blank_row_def
      narrow_frame_def upt_conv_Cons)

lemma read_points:
  "read_excel sample_env [1] HeaderNone 7 = Inr points_frame"
  by (simp add: sample_env_def sample_grid_def frame_of_grid_def blank_row_def
      points_frame_def upt_conv_Cons)

subsection \<open>Clamping of the slope layout\<close>

lemma filter_less_sorted:
  "sorted xs \<Longrightarrow> filter (\<lambda>i. i < (c::nat)) xs = take (length (filter (\<lambda>i. i < c) xs)) xs"
proof (induction xs)
  case Nil
  then show ?case by simp
next
  case (Cons x xs)
  show ?case
  proof (cases "x < c")
    case True
    with Cons show ?thesis by simp
  next
    case False
    with Cons.prems have "\<forall>y\<in>set xs. \<not> y < c" by auto
    then have "filter (\<lambda>i. i < c) xs = []" by (simp add: filter_empty_conv)
    with False show ?thesis by simp
  qed
qed

lemma valid_indices_prefix:
  "valid_indices n = take (length (valid_indices n)) target_columns"
  unfolding valid_indices_def
  by (rule filter_less_sorted) (simp add: target_columns_def)

lemma valid_indices_in_range: "list_all (\<lambda>j. j < n) (valid_indices n)"
  by (simp add: valid_indices_def list_all_iff)

lemma length_valid_indices: "length (valid_indices n) \<le> 8"
proof -
  have "length (valid_indices n) \<le> length target_columns"
    unfolding valid_indices_def by (rule length_filter_le)
  then show ?thesis by (simp add: target_columns_def)
qed

lemma length_new_column_names: "length new_column_names = 8"
  by (simp add: new_column_names_def)

text \<open>
  C3. When pandas reads the file with the first row as header into a frame of \<open>C\<close>
  columns, the slope extraction selects exactly the members of
  \<open>(0, 5, 8, 9, 10, 11, 12, 13)\<close> that are below \<open>C\<close>, in that order; the result has as
  many columns as positions survive, named by the fixed names cut to that number; and
  the \<open>k\<close>-th surviving position is the \<open>k\<close>-th fixed position and carries the \<open>k\<close>-th
  fixed name.
\<close>

theorem slope_clamping:
  assumes "read_excel e file_content (HeaderAt 0) 0 = Inr df"
  shows "extract_slope e file_content =
           Inr \<lparr>columns =
                  map Name (take (length (valid_indices (length (columns df)))) new_column_names),
                rows = map (\<lambda>r. map (\<lambda>j. r ! j) (valid_indices (length (columns df)))) (rows df)\<rparr>
       \<and> set (valid_indices (length (columns df))) =
           {i \<in> set target_columns. i < length (columns df)}
       \<and> length (map Name (take (length (valid_indices (length (columns df)))) new_column_names)) =
           length (valid_indices (length (columns df)))
       \<and> (\<forall>k < length (valid_indices (length (columns df))).
             valid_indices (length (columns df)) ! k = target_columns ! k
           \<and> map Name (take (length (valid_indices (length (columns df)))) new_column_names) ! k =
               Name (new_column_names ! k))"
proof -
  let ?v = "valid_indices (length (columns df))"
  have len: "length ?v \<le> 8" by (rule length_valid_indices)
  have sel: "iloc_cols df ?v =
      Inr \<lparr>columns = map (\<lambda>j. columns df ! j) ?v, rows = map (\<lambda>r. map (\<lambda>j. r ! j) ?v) (rows df)\<rparr>"
    by (simp add: iloc_cols_def valid_indices_in_range)
  have ex: "extract_slope e file_content =
      Inr \<lparr>columns = map Name (take (length ?v) new_column_names),
           rows = map (\<lambda>r. map (\<lambda>j. r ! j) ?v) (rows df)\<rparr>"
    using len by (simp add: extract_slope_def assms sel set_columns_def length_new_column_names)
  have pos: "?v ! k = target_columns ! k" if "k < length ?v" for k
  proof -
    have "?v ! k = take (length ?v) target_columns ! k"
      using valid_indices_prefix [of "length (columns df)"] by simp
    with that show ?thesis by simp
  qed
  have nm: "map Name (take (length ?v) new_column_names) ! k = Name (new_column_names ! k)"
    if "k < length ?v" for k
    using that len by (simp add: length_new_column_names)
  have s: "set ?v = {i \<in> set target_columns. i < length (columns df)}"
    by (auto simp: valid_indices_def)
  have cnt: "length (map Name (take (length ?v) new_column_names)) = length ?v"
    using len by (simp add: length_new_column_names)
  show ?thesis using ex s cnt pos nm by blast
qed

theorem slope_clamping_witness:
  "read_excel sample_env [2] (HeaderAt 0) 0 = Inr nine_column_frame
   \<and> extract_slope sample_env [2] =
       Inr \<lparr>columns = map Name (take 3 new_column_names),
            rows = [[Number 0, Number 5, Number 8]]\<rparr>
   \<and> valid_indices 9 ! 2 = target_columns ! 2
   \<and> map Name (take 3 new_column_names) ! 2 = Name (new_column_names ! 2)"
proof -
  have h: "read_excel sample_env [2] (HeaderAt 0) 0 = Inr nine_column_frame"
    by (rule read_nine_columns)
  have v: "valid_indices 9 = [0, 5, 8]"
    by (simp add: valid_indices_def target_columns_def)
  have c: "length (columns nine_column_frame) = 9"
    by (simp add: nine_column_frame_def)
  have vv: "valid_indices (length (columns nine_column_frame)) = [0, 5, 8]"
    by (simp only: c v)
  have l3: "length [0::nat, 5, 8] = 3" by simp
  note t = slope_clamping [OF h, unfolded vv l3]
  have rws: "map (\<lambda>r. map (\<lambda>j. r ! j) [0, 5, 8]) (rows nine_column_frame) =
      [[Number 0, Number 5, Number 8]]"
    by (simp add: nine_column_frame_def)
  from t have ex: "extract_slope sample_env [2] =
      Inr \<lparr>columns = map Name (take 3 new_column_names),
           rows = [[Number 0, Number 5, Number 8]]\<rparr>"
    unfolding rws by (rule conjunct1)
  from t have q: "\<forall>k<3. [0, 5, 8] ! k = target_columns ! k
      \<and> map Name (take 3 new_column_names) ! k = Name (new_column_names ! k)"
    by blast
  have "(2::nat) < 3" by simp
  with q have k2: "[0, 5, 8] ! 2 = target_columns ! 2
      \<and> map Name (take 3 new_column_names) ! 2 = Name (new_column_names ! 2)"
    by blast
  show ?thesis using h ex k2 unfolding v by blast
qed

subsection \<open>Classification by the first cell\<close>

lemma first_cell_parsed:
  assumes "parsed_table df"
  shows "first_cell df = Inr (cell00_text df)"
proof (cases "rows df")
  case Nil
  then show ?thesis by (simp add: first_cell_def len_df_def cell00_text_def)
next
  case (Cons r rs)
  with assms have c: "columns df \<noteq> []" and l: "length r = length (columns df)"
    by (simp_all add: parsed_table_def wf_df_def)
  from c l obtain x xs where r: "r = x # xs" by (cases r) auto
  from c Cons r show ?thesis
    by (simp add: first_cell_def len_df_def cell00_text_def iloc_cell_def)
qed

text \<open>
  C1. For every frame the parser can return, the classifier does not fail: when the text
  of the cell at row 0 and column 0 (the empty text when there is no such cell) contains
  one of the two markers, it yields the survey layout, otherwise the slope inspection
  layout. The names of the two layouts are the two fixed format names, and neither is
  the name that stands for an unknown format.
\<close>

theorem classify_by_first_cell:
  assumes "parsed_table df"
  shows "classify df =
           Inr (if sublist MARKER_EN (cell00_text df) \<or> sublist MARKER_ZH (cell00_text df)
                then SurveyResults else SlopeInspection)
       \<and> format_name SurveyResults = [0x6D4B, 0x91CF, 0x6210, 0x679C, 0x8868]
       \<and> format_name SlopeInspection = [0x8FB9, 0x5761, 0x68C0, 0x67E5, 0x8868]
       \<and> format_name SurveyResults \<noteq> FORMAT_UNKNOWN
       \<and> format_name SlopeInspection \<noteq> FORMAT_UNKNOWN"
  using first_cell_parsed [OF assms]
  by (simp add: classify_def FORMAT_SURVEY_def FORMAT_SLOPE_def FORMAT_UNKNOWN_def)

theorem classify_by_first_cell_witness:
  "parsed_table title_frame \<and> classify title_frame = Inr SurveyResults"
proof -
  have h: "parsed_table title_frame"
    by (simp add: parsed_table_def wf_df_def title_frame_def)
  have c: "cell00_text title_frame = MARKER_ZH @ [32, 65, 49]"
    by (simp add: cell00_text_def title_frame_def survey_title_def MARKER_ZH_def)
  have m: "sublist MARKER_ZH (cell00_text title_frame)"
    unfolding c by (rule sublist_append_rightI)
  show ?thesis using h classify_by_first_cell [OF h] m by simp
qed

subsection \<open>Extraction of the survey layout\<close>

lemma filter_by_mask:
  "map fst (filter snd (zip xs (map p (map f xs)))) = filter (\<lambda>x. p (f x)) xs"
  by (induction xs) auto

text \<open>
  C2, as amended. When pandas reads the file without a header and without its first
  seven rows into a frame of at least five columns, the survey extraction returns a table
  whose columns carry the four fixed names and whose rows are, in the order of the frame,
  the cells at the positions 1, 2, 3 and 4 of exactly those rows whose cell at position 2
  parses as a number. So of \<open>N\<close> rows, \<open>M\<close> of them numeric at position 2, \<open>M\<close> are
  returned.
\<close>

theorem survey_extraction:
  assumes "read_excel e file_content HeaderNone 7 = Inr df"
    and "5 \<le> length (columns df)"
  shows "extract_survey e file_content =
           Inr \<lparr>columns =
                  map Name [[0x6D4B, 0x70B9, 0x7F16, 0x53F7], [88, 0x5750, 0x6807],
                            [89, 0x5750, 0x6807], [0x9AD8, 0x7A0B, 72]],
                rows = map survey_cells (numeric_rows e df)\<rparr>
       \<and> length (map survey_cells (numeric_rows e df)) = length (numeric_rows e df)
       \<and> subseq (numeric_rows e df) (rows df)"
proof -
  have col: "iloc_col df 2 = Inr (map (\<lambda>r. r ! 2) (rows df))"
    using assms(2) by (simp add: iloc_col_def)
  have flt: "boolean_filter df (map (numeric_cell e) (map (\<lambda>r. r ! 2) (rows df))) =
      df\<lparr>rows := numeric_rows e df\<rparr>"
    unfolding boolean_filter_def numeric_rows_def filter_by_mask
    by (simp add: discriminant_numeric_def [abs_def])
  have sel: "iloc_cols (df\<lparr>rows := numeric_rows e df\<rparr>) SURVEY_COLUMNS =
      Inr \<lparr>columns = map (\<lambda>j. columns df ! j) SURVEY_COLUMNS,
           rows = map survey_cells (numeric_rows e df)\<rparr>"
    using assms(2) by (simp add: iloc_cols_def SURVEY_COLUMNS_def survey_cells_def [abs_def])
  have "extract_survey e file_content =
      set_columns \<lparr>columns = map (\<lambda>j. columns df ! j) SURVEY_COLUMNS,
                   rows = map survey_cells (numeric_rows e df)\<rparr> SURVEY_NAMES"
    by (simp only: extract_survey_def assms(1) col flt sel sum.case)
  then have "extract_survey e file_content =
      Inr \<lparr>columns =
             map Name [[0x6D4B, 0x70B9, 0x7F16, 0x53F7], [88, 0x5750, 0x6807],
                       [89, 0x5750, 0x6807], [0x9AD8, 0x7A0B, 72]],
           rows = map survey_cells (numeric_rows e df)\<rparr>"
    by (simp add: set_columns_def SURVEY_NAMES_def SURVEY_COLUMNS_def)
  then show ?thesis by (simp add: numeric_rows_def)
qed

theorem survey_extraction_witness:
  "read_excel sample_env [1] HeaderNone 7 = Inr points_frame
   \<and> 5 \<le> length (columns points_frame)
   \<and> extract_survey sample_env [1] =
       Inr \<lparr>columns =
              map Name [[0x6D4B, 0x70B9, 0x7F16, 0x53F7], [88, 0x5750, 0x6807],
                        [89, 0x5750, 0x6807], [0x9AD8, 0x7A0B, 72]],
            rows = [[Text [80, 49], Number 100, Number 200, Number 50],
                    [Text [80, 50], Number 110, Number 210, Number 51]]\<rparr>"
proof -
  have h: "read_excel sample_env [1] HeaderNone 7 = Inr points_frame"
    by (rule read_points)
  have w: "5 \<le> length (columns points_frame)"
    by (simp add: points_frame_def)
  have n: "map survey_cells (numeric_rows sample_env points_frame) =
      [[Text [80, 49], Number 100, Number 200, Number 50],
       [Text [80, 50], Number 110, Number 210, Number 51]]"
    by (simp add: numeric_rows_def discriminant_numeric_def points_frame_def survey_cells_def
        sample_env_def digits_only_def)
  from survey_extraction [OF h w] have "extract_survey sample_env [1] =
      Inr \<lparr>columns =
             map Name [[0x6D4B, 0x70B9, 0x7F16, 0x53F7], [88, 0x5750, 0x6807],
                       [89, 0x5750, 0x6807], [0x9AD8, 0x7A0B, 72]],
           rows = map survey_cells (numeric_rows sample_env points_frame)\<rparr>"
    by (rule conjunct1)
  with h w show ?thesis unfolding n by blast
qed

text \<open>
  C2 as stated fails on a survey sheet of three columns: one row is left after
  the first seven, its cell at position 2 is a number, and the extraction raises instead
  of returning one row; the handler answers with the failure response.
\<close>

theorem survey_extraction_counterexample:
  "read_excel sample_env [3] HeaderNone 7 = Inr narrow_frame
   \<and> length (rows narrow_frame) = 1
   \<and> length (numeric_rows sample_env narrow_frame) = 1
   \<and> extract_survey sample_env [3] = Inl IndexError"
proof -
  have "extract_survey sample_env [3] = Inl IndexError"
    by (simp add: extract_survey_def read_narrow narrow_frame_def iloc_col_def iloc_cols_def
        boolean_filter_def SURVEY_COLUMNS_def)
  then show ?thesis
    by (simp add: read_narrow narrow_frame_def numeric_rows_def discriminant_numeric_def)
qed

subsection \<open>More of the sample world\<close>

lemma title_text: "py_str survey_title = MARKER_ZH @ [32, 65, 49]"
  by (simp add: survey_title_def MARKER_ZH_def)

lemma title_has_marker: "sublist MARKER_ZH (py_str survey_title)"
  unfolding title_text by (rule sublist_append_rightI)

lemma classify_title:
  "classify \<lparr>columns = c # cs, rows = (survey_title # r) # rs\<rparr> = Inr SurveyResults"
  using title_has_marker by (simp add: classify_def first_cell_def len_df_def iloc_cell_def)

lemma read_note_raw:
  "\<exists>c cs r rs. read_excel sample_env [4] HeaderNone 0 =
      Inr \<lparr>columns = c # cs, rows = (survey_title # r) # rs\<rparr>"
  by (simp add: sample_env_def sample_grid_def frame_of_grid_def blank_row_def upt_conv_Cons)

lemma read_note:
  "read_excel sample_env [4] HeaderNone 7 = Inr note_frame"
  by (simp add: sample_env_def sample_grid_def frame_of_grid_def blank_row_def
      note_frame_def upt_conv_Cons)

lemma extract_note:
  "extract_survey sample_env [4] = Inr \<lparr>columns = map Name SURVEY_NAMES, rows = []\<rparr>"
  by (simp add: extract_survey_def read_note note_frame_def iloc_col_def iloc_cols_def
      boolean_filter_def SURVEY_COLUMNS_def set_columns_def SURVEY_NAMES_def)

lemma extract_table_note:
  "extract_table sample_env [4] =
     Inr (\<lparr>columns = map Name SURVEY_NAMES, rows = []\<rparr>, SurveyResults)"
proof -
  from read_note_raw obtain c cs r rs where
    "read_excel sample_env [4] HeaderNone 0 =
       Inr \<lparr>columns = c # cs, rows = (survey_title # r) # rs\<rparr>"
    by blast
  then show ?thesis
    by (simp add: extract_table_def classify_title extract_note)
qed

lemma content_note:
  "get_file_content sample_env note_only_request = (Inr [4], [])"
  by (simp add: get_file_content_def note_only_request_def sample_env_def)

lemma read_header_only:
  "read_excel sample_env [5] (HeaderAt 0) 0 = Inr header_only_frame"
  by (simp add: sample_env_def sample_grid_def frame_of_grid_def header_only_frame_def)

lemma read_unknown:
  "read_excel sample_env [6] (HeaderAt 0) 0 = Inr unknown_frame"
  by (simp add: sample_env_def sample_grid_def frame_of_grid_def unknown_frame_def)

lemma detect_header_only:
  "detect_excel_format header_only_frame =
     (Some [0x8FB9, 0x5761, 0x68C0, 0x67E5, 0x8868],
      map Name [[0x5E8F, 0x53F7], [0x6869, 0x53F7], [0x68C0, 0x67E5, 0x65F6, 0x95F4],
                [0x8D23, 0x4EFB, 0x4EBA], [0x95EE, 0x9898, 0x63CF, 0x8FF0],
                [0x6574, 0x6539, 0x63AA, 0x65BD]])"
  by (simp add: detect_excel_format_def EXCEL_FORMATS_def header_only_frame_def)

lemma detect_unknown:
  "detect_excel_format unknown_frame = (None, [Name [97], Name [98]])"
  by (simp add: detect_excel_format_def EXCEL_FORMATS_def unknown_frame_def)

subsection \<open>The response of the position-based service\<close>

lemma no_data_is_not_failure:
  "no_data_response (format_name lay) \<noteq> failure_response e x"
  by (cases lay)
    (simp_all add: no_data_response_def failure_response_def FORMAT_SURVEY_def FORMAT_SLOPE_def
      FORMAT_UNKNOWN_def)

text \<open>
  C4, as amended. In the position-based service, when the bytes of the file are obtained
  and classification and extraction return a table with no row, the response has
  \<open>success\<close> false, the name of the detected layout, a row count of 0, no file, no file
  name and the message that no data could be extracted; it differs from every response
  the handler gives for a failure, a parse failure among them.
\<close>

theorem zero_rows_reported:
  assumes "get_file_content e request = (Inr file_content, fetched)"
    and "extract_table e file_content = Inr (t, lay)"
    and "rows t = []"
  shows "fst (extract_excel e request) =
           \<lparr>success = False, format_type = format_name lay, row_count = 0, file_base64 = [],
            filename = [],
            message = [0x672A, 0x80FD, 0x63D0, 0x53D6, 0x5230, 0x4EFB, 0x4F55, 0x6570, 0x636E],
            column_names = []\<rparr>
       \<and> (\<forall>x. fst (extract_excel e request) \<noteq> failure_response e x)"
proof -
  have r: "fst (extract_excel e request) = no_data_response (format_name lay)"
    using assms by (simp add: extract_excel_def respond_def len_df_def)
  show ?thesis
    unfolding r using no_data_is_not_failure
    by (simp add: no_data_response_def MSG_NO_DATA_def)
qed

theorem zero_rows_reported_witness:
  "get_file_content sample_env note_only_request = (Inr [4], [])
   \<and> extract_table sample_env [4] =
       Inr (\<lparr>columns = map Name SURVEY_NAMES, rows = []\<rparr>, SurveyResults)
   \<and> fst (extract_excel sample_env note_only_request) =
       \<lparr>success = False, format_type = FORMAT_SURVEY, row_count = 0, file_base64 = [],
        filename = [],
        message = [0x672A, 0x80FD, 0x63D0, 0x53D6, 0x5230, 0x4EFB, 0x4F55, 0x6570, 0x636E],
        column_names = []\<rparr>"
proof -
  have r: "rows \<lparr>columns = map Name SURVEY_NAMES, rows = []\<rparr> = []" by simp
  from zero_rows_reported [OF content_note extract_table_note r]
  have "fst (extract_excel sample_env note_only_request) =
       \<lparr>success = False, format_type = format_name SurveyResults, row_count = 0,
        file_base64 = [], filename = [],
        message = [0x672A, 0x80FD, 0x63D0, 0x53D6, 0x5230, 0x4EFB, 0x4F55, 0x6570, 0x636E],
        column_names = []\<rparr>"
    by (rule conjunct1)
  then show ?thesis using content_note extract_table_note by simp
qed

lemma decode_sample: "33 \<notin> set s \<Longrightarrow> b64decode sample_env s = Inr (map of_nat s)"
  by (simp add: sample_env_def)

lemma to_excel_sample: "to_excel sample_env t = Inr [80, 75]"
  by (simp add: sample_env_def)

lemma encode_sample: "b64encode sample_env [80, 75] = [80, 75]"
  by (simp add: sample_env_def)

lemma get_sample: "requests_get sample_env [117] = Inr (404, [])"
  by (simp add: sample_env_def)

lemma source_header_only:
  "read_source sample_env header_only_data = (Some (Inr header_only_frame), [])"
  by (simp add: read_source_def header_only_data_def read_excel_from_base64_def decode_sample
      read_header_only)

lemma flask_header_only:
  "extract_excel_flask sample_env (JsonObject header_only_data) =
     ((Extracted (extracted_message 0) [0x8FB9, 0x5761, 0x68C0, 0x67E5, 0x8868]
         [Name [0x5E8F, 0x53F7], Name [0x6869, 0x53F7]] 0 [80, 75], 200), [])"
proof -
  have a: "available_columns header_only_frame
      (columns_to_extract (data_columns header_only_data)
         (map Name [[0x5E8F, 0x53F7], [0x6869, 0x53F7], [0x68C0, 0x67E5, 0x65F6, 0x95F4],
                    [0x8D23, 0x4EFB, 0x4EBA], [0x95EE, 0x9898, 0x63CF, 0x8FF0],
                    [0x6574, 0x6539, 0x63AA, 0x65BD]])) =
      [Name [0x5E8F, 0x53F7], Name [0x6869, 0x53F7]]"
    by (simp add: available_columns_def columns_to_extract_def header_only_data_def
        header_only_frame_def)
  have f: "extract_from_frame sample_env (data_columns header_only_data) header_only_frame =
      Inr (Extracted (extracted_message 0) [0x8FB9, 0x5761, 0x68C0, 0x67E5, 0x8868]
         [Name [0x5E8F, 0x53F7], Name [0x6869, 0x53F7]] 0 [80, 75], 200)"
    unfolding extract_from_frame_def detect_header_only prod.case a
    by (simp add: to_excel_sample encode_sample or_default_def select_columns_def len_df_def
        header_only_frame_def)
  show ?thesis
    by (simp add: extract_excel_flask_def source_header_only f)
qed

text \<open>
  C4 as stated fails in the name-based service, which has no test for an empty table: a
  sheet with the two identifier columns of the slope inspection format and no row is
  answered with \<open>success\<close> true, status 200 and a row count of 0.
\<close>

theorem zero_rows_reported_counterexample:
  "reply_success (fst (fst (extract_excel_flask sample_env (JsonObject header_only_data))))
   \<and> reply_row_count (fst (fst (extract_excel_flask sample_env (JsonObject header_only_data)))) = Some 0
   \<and> snd (fst (extract_excel_flask sample_env (JsonObject header_only_data))) = 200"
  by (simp add: flask_header_only)

subsection \<open>Where the bytes of the file come from\<close>

lemma inline_wins:
  assumes "ExtractRequest.file_base64 request = Some b" and "b \<noteq> []"
  shows "get_file_content e request = (b64decode e b, [])"
  using assms by (simp add: get_file_content_def)

lemma fetched_of_extract_excel:
  "snd (extract_excel e request) = snd (get_file_content e request)"
  by (simp add: extract_excel_def split: prod.splits sum.splits)

lemma fetched_of_post_extract:
  assumes "validate_request body = Some request"
  shows "snd (post_extract e body) = snd (get_file_content e request)"
proof (cases "extract_excel e request")
  case (Pair r fetched)
  then have "snd (extract_excel e request) = fetched" by simp
  with Pair assms show ?thesis
    by (simp add: post_extract_def fetched_of_extract_excel [symmetric])
qed

lemma inline_wins_flask:
  assumes "data_file_base64 d = Some b" and "b \<noteq> []"
  shows "read_source e d = (Some (read_excel_from_base64 e b), [])"
  using assms by (simp add: read_source_def)

lemma fetched_of_extract_excel_flask:
  "snd (extract_excel_flask e (JsonObject d)) = snd (read_source e d)"
  by (simp add: extract_excel_flask_def split: prod.splits sum.splits option.splits)

lemma no_source_flask:
  assumes "data_file_base64 d = None \<or> data_file_base64 d = Some []"
    and "data_file_url d = None \<or> data_file_url d = Some []"
  shows "extract_excel_flask e (JsonObject d) = ((Failed MSG_GIVE_SOURCE, 400), [])"
proof -
  from assms have "read_source e d = (None, [])"
    by (auto simp: read_source_def)
  then show ?thesis by (simp add: extract_excel_flask_def)
qed

lemma unreadable_source_flask:
  assumes "fst (read_source e d) = Some (Inl x)"
  shows "fst (extract_excel_flask e (JsonObject d)) = (Failed (MSG_PROCESSING_FAILED @ exn_text e x), 500)"
proof (cases "read_source e d")
  case (Pair c fetched)
  with assms show ?thesis by (simp add: extract_excel_flask_def processing_failed_def)
qed

text \<open>
  C5, as amended. In the position-based service a request that carries a URL and a file
  given inline as a non-empty text has that text decoded and used, and no URL is
  requested. In the name-based service a request whose object carries a file inline as a
  non-empty text has that text decoded and read, and no URL is requested, whatever the
  URL field holds; a request whose body is empty (\<^verbatim>\<open>get_json()\<close> returns a false value)
  or is an object that holds neither a non-empty inline file nor a non-empty URL is
  answered with status 400, a client error, and \<open>success\<close> false; and a request whose
  source does not yield a readable workbook is answered with status 500 and \<open>success\<close>
  false.
\<close>

theorem source_resolution:
  "(body_file_url body = Some (JString u) \<and> body_file_base64 body = Some (JString b)
      \<and> b \<noteq> [] \<longrightarrow>
      validate_request body = Some \<lparr>file_url = u, file_base64 = Some b\<rparr>
      \<and> get_file_content e \<lparr>file_url = u, file_base64 = Some b\<rparr> = (b64decode e b, [])
      \<and> snd (post_extract e body) = [])
   \<and> (data_file_base64 d = Some b' \<and> b' \<noteq> [] \<longrightarrow>
      read_source e d = (Some (read_excel_from_base64 e b'), [])
      \<and> snd (extract_excel_flask e (JsonObject d)) = [])
   \<and> ((data_file_base64 d0 = None \<or> data_file_base64 d0 = Some [])
      \<and> (data_file_url d0 = None \<or> data_file_url d0 = Some []) \<longrightarrow>
      extract_excel_flask e (JsonObject d0) = ((Failed MSG_GIVE_SOURCE, 400), [])
      \<and> client_error 400)
   \<and> extract_excel_flask e JsonFalsy = ((Failed MSG_EMPTY_BODY, 400), [])
   \<and> (fst (read_source e d1) = Some (Inl x1) \<longrightarrow>
      fst (extract_excel_flask e (JsonObject d1)) =
        (Failed (MSG_PROCESSING_FAILED @ exn_text e x1), 500)
      \<and> \<not> reply_success (fst (fst (extract_excel_flask e (JsonObject d1)))))"
proof (intro conjI impI)
  assume a: "body_file_url body = Some (JString u) \<and> body_file_base64 body = Some (JString b)
      \<and> b \<noteq> []"
  then show v: "validate_request body = Some \<lparr>file_url = u, file_base64 = Some b\<rparr>"
    by (simp add: validate_request_def)
  from a show g: "get_file_content e \<lparr>file_url = u, file_base64 = Some b\<rparr> = (b64decode e b, [])"
    by (simp add: inline_wins)
  show "snd (post_extract e body) = []"
    unfolding fetched_of_post_extract [OF v] g by simp
next
  assume a: "data_file_base64 d = Some b' \<and> b' \<noteq> []"
  then show g: "read_source e d = (Some (read_excel_from_base64 e b'), [])"
    by (simp add: inline_wins_flask)
  show "snd (extract_excel_flask e (JsonObject d)) = []"
    unfolding fetched_of_extract_excel_flask g by simp
next
  assume "(data_file_base64 d0 = None \<or> data_file_base64 d0 = Some [])
      \<and> (data_file_url d0 = None \<or> data_file_url d0 = Some [])"
  then show "extract_excel_flask e (JsonObject d0) = ((Failed MSG_GIVE_SOURCE, 400), [])"
    by (simp add: no_source_flask)
next
  show "client_error 400" by (simp add: client_error_def)
next
  show "extract_excel_flask e JsonFalsy = ((Failed MSG_EMPTY_BODY, 400), [])"
    by (simp add: extract_excel_flask_def)
next
  assume a: "fst (read_source e d1) = Some (Inl x1)"
  then show g: "fst (extract_excel_flask e (JsonObject d1)) =
      (Failed (MSG_PROCESSING_FAILED @ exn_text e x1), 500)"
    by (rule unreadable_source_flask)
  show "\<not> reply_success (fst (fst (extract_excel_flask e (JsonObject d1))))"
    unfolding g by simp
qed

lemma source_missing_file:
  "read_source sample_env missing_file_data = (Some (Inl (HTTPError 404)), [[117]])"
  by (simp add: read_source_def missing_file_data_def read_excel_from_url_def get_sample)

theorem source_resolution_witness:
  "body_file_url inline_and_url_body = Some (JString [117])
   \<and> body_file_base64 inline_and_url_body = Some (JString [1])
   \<and> snd (post_extract sample_env inline_and_url_body) = []
   \<and> data_file_base64 inline_and_url_data = Some [6]
   \<and> snd (extract_excel_flask sample_env (JsonObject inline_and_url_data)) = []
   \<and> data_file_base64 no_source_data = None \<and> data_file_url no_source_data = None
   \<and> extract_excel_flask sample_env (JsonObject no_source_data) =
       ((Failed MSG_GIVE_SOURCE, 400), [])
   \<and> fst (read_source sample_env missing_file_data) = Some (Inl (HTTPError 404))
   \<and> snd (fst (extract_excel_flask sample_env (JsonObject missing_file_data))) = 500"
proof -
  have h1: "body_file_url inline_and_url_body = Some (JString [117])
      \<and> body_file_base64 inline_and_url_body = Some (JString [1]) \<and> [1::nat] \<noteq> []"
    by (simp add: inline_and_url_body_def)
  have h2: "data_file_base64 inline_and_url_data = Some [6] \<and> [6::nat] \<noteq> []"
    by (simp add: inline_and_url_data_def)
  have h3: "(data_file_base64 no_source_data = None \<or> data_file_base64 no_source_data = Some [])
      \<and> (data_file_url no_source_data = None \<or> data_file_url no_source_data = Some [])"
    by (simp add: no_source_data_def)
  have h3': "data_file_base64 no_source_data = None \<and> data_file_url no_source_data = None"
    by (simp add: no_source_data_def)
  have h4: "fst (read_source sample_env missing_file_data) = Some (Inl (HTTPError 404))"
    by (simp add: source_missing_file)
  note t = source_resolution [of inline_and_url_body "[117]" "[1]" sample_env
      inline_and_url_data "[6]" no_source_data missing_file_data "HTTPError 404"]
  from t h4 have s: "snd (fst (extract_excel_flask sample_env (JsonObject missing_file_data))) = 500"
    by simp
  from t h1 h2 h3 h3' h4 s show ?thesis by blast
qed

text \<open>
  C5 as stated fails in the name-based service when the only source is a URL that
  answers 404: the URL is requested, \<^verbatim>\<open>raise_for_status\<close> raises, and the handler
  answers with status 500, which is not a client error.
\<close>

theorem source_resolution_counterexample:
  "data_file_base64 missing_file_data = None
   \<and> requests_get sample_env [117] = Inr (404, [])
   \<and> extract_excel_flask sample_env (JsonObject missing_file_data) =
       ((Failed (MSG_PROCESSING_FAILED @ exn_text sample_env (HTTPError 404)), 500), [[117]])
   \<and> \<not> client_error 500"
proof -
  have "extract_excel_flask sample_env (JsonObject missing_file_data) =
       ((Failed (MSG_PROCESSING_FAILED @ exn_text sample_env (HTTPError 404)), 500), [[117]])"
    by (simp add: extract_excel_flask_def source_missing_file processing_failed_def)
  then show ?thesis
    by (simp add: missing_file_data_def get_sample client_error_def)
qed

subsection \<open>Classification by the names of the header\<close>

lemma detect_in_first_match:
  assumes "i < length fmts"
    and "layout_matches cols (fmts ! i)"
    and "\<forall>j<i. \<not> layout_matches cols (fmts ! j)"
  shows "detect_in fmts cols =
           (Some (fst (fmts ! i)), map Name (extract_columns (snd (fmts ! i))))"
  using assms
proof (induction fmts arbitrary: i)
  case Nil
  then show ?case by simp
next
  case (Cons f fmts)
  obtain n info where f: "f = (n, info)" by (cases f)
  show ?case
  proof (cases i)
    case 0
    with Cons.prems f show ?thesis by (simp add: layout_matches_def)
  next
    case (Suc k)
    with Cons.prems have "\<not> layout_matches cols ((f # fmts) ! 0)" by blast
    then have nf: "\<not> set (map Name (identifier_columns info)) \<subseteq> set cols"
      by (simp add: f layout_matches_def)
    from Cons.prems Suc have k: "k < length fmts" and m: "layout_matches cols (fmts ! k)"
      by simp_all
    have "\<forall>j<k. \<not> layout_matches cols (fmts ! j)"
    proof (intro allI impI)
      fix j assume "j < k"
      then have "Suc j < i" using Suc by simp
      with Cons.prems(3) have "\<not> layout_matches cols ((f # fmts) ! Suc j)" by blast
      then show "\<not> layout_matches cols (fmts ! j)" by simp
    qed
    from Cons.IH [OF k m this] nf show ?thesis by (simp add: f Suc)
  qed
qed

lemma detect_in_no_match:
  assumes "\<forall>j<length fmts. \<not> layout_matches cols (fmts ! j)"
  shows "detect_in fmts cols = (None, cols)"
  using assms
proof (induction fmts)
  case Nil
  then show ?case by simp
next
  case (Cons f fmts)
  obtain n info where f: "f = (n, info)" by (cases f)
  from Cons.prems have "\<not> layout_matches cols ((f # fmts) ! 0)" by blast
  then have nf: "\<not> set (map Name (identifier_columns info)) \<subseteq> set cols"
    by (simp add: f layout_matches_def)
  have "\<forall>j<length fmts. \<not> layout_matches cols (fmts ! j)"
  proof (intro allI impI)
    fix j assume "j < length fmts"
    then have "Suc j < length (f # fmts)" by simp
    with Cons.prems have "\<not> layout_matches cols ((f # fmts) ! Suc j)" by blast
    then show "\<not> layout_matches cols (fmts ! j)" by simp
  qed
  from Cons.IH [OF this] nf show ?case by (simp add: f)
qed

text \<open>
  C7, as amended. The classifier returns the name and the columns of the first layout of
  the format table, in the order of the table, all of whose identifier columns occur in
  the header. When no layout has all its identifiers in the header, no format is
  detected and the reply names the format as unrecognised; the columns to extract are
  then the list the caller supplied when there is one and it is not empty, and all the
  columns of the header otherwise.
\<close>

theorem name_based_classification:
  "(i < length EXCEL_FORMATS \<and> layout_matches (columns df) (EXCEL_FORMATS ! i)
      \<and> (\<forall>j<i. \<not> layout_matches (columns df) (EXCEL_FORMATS ! j)) \<longrightarrow>
      detect_excel_format df =
        (Some (fst (EXCEL_FORMATS ! i)), map Name (extract_columns (snd (EXCEL_FORMATS ! i)))))
   \<and> ((\<forall>j<length EXCEL_FORMATS. \<not> layout_matches (columns df0) (EXCEL_FORMATS ! j)) \<longrightarrow>
      detect_excel_format df0 = (None, columns df0)
      \<and> or_default (fst (detect_excel_format df0)) FORMAT_UNRECOGNISED = FORMAT_UNRECOGNISED
      \<and> columns_to_extract custom_columns (snd (detect_excel_format df0)) =
          (case custom_columns of
             None \<Rightarrow> columns df0
           | Some cs \<Rightarrow> if cs = [] then columns df0 else cs))"
proof (intro conjI impI)
  assume "i < length EXCEL_FORMATS \<and> layout_matches (columns df) (EXCEL_FORMATS ! i)
      \<and> (\<forall>j<i. \<not> layout_matches (columns df) (EXCEL_FORMATS ! j))"
  then show "detect_excel_format df =
        (Some (fst (EXCEL_FORMATS ! i)), map Name (extract_columns (snd (EXCEL_FORMATS ! i))))"
    unfolding detect_excel_format_def by (intro detect_in_first_match) simp_all
next
  assume a: "\<forall>j<length EXCEL_FORMATS. \<not> layout_matches (columns df0) (EXCEL_FORMATS ! j)"
  then show d: "detect_excel_format df0 = (None, columns df0)"
    unfolding detect_excel_format_def by (rule detect_in_no_match)
  show "or_default (fst (detect_excel_format df0)) FORMAT_UNRECOGNISED = FORMAT_UNRECOGNISED"
    unfolding d by (simp add: or_default_def)
  show "columns_to_extract custom_columns (snd (detect_excel_format df0)) =
          (case custom_columns of
             None \<Rightarrow> columns df0
           | Some cs \<Rightarrow> if cs = [] then columns df0 else cs)"
    unfolding d by (simp add: columns_to_extract_def split: option.splits)
qed

lemma length_formats: "length EXCEL_FORMATS = 2"
  by (simp add: EXCEL_FORMATS_def)

lemma formats_0:
  "EXCEL_FORMATS ! 0 =
     ([0x8FB9, 0x5761, 0x68C0, 0x67E5, 0x8868],
      \<lparr>identifier_columns = [[0x5E8F, 0x53F7], [0x6869, 0x53F7]],
       extract_columns =
         [[0x5E8F, 0x53F7], [0x6869, 0x53F7], [0x68C0, 0x67E5, 0x65F6, 0x95F4],
          [0x8D23, 0x4EFB, 0x4EBA], [0x95EE, 0x9898, 0x63CF, 0x8FF0],
          [0x6574, 0x6539, 0x63AA, 0x65BD]]\<rparr>)"
  by (simp add: EXCEL_FORMATS_def)

lemma formats_1:
  "EXCEL_FORMATS ! Suc 0 =
     ([0x6D4B, 0x91CF, 0x6210, 0x679C, 0x8868],
      \<lparr>identifier_columns = [[0x70B9, 0x53F7], [88, 0x5750, 0x6807]],
       extract_columns =
         [[0x70B9, 0x53F7], [88, 0x5750, 0x6807], [89, 0x5750, 0x6807], [0x9AD8, 0x7A0B],
          [0x5907, 0x6CE8]]\<rparr>)"
  by (simp add: EXCEL_FORMATS_def)

lemma unknown_no_match:
  "j < length EXCEL_FORMATS \<Longrightarrow> \<not> layout_matches (columns unknown_frame) (EXCEL_FORMATS ! j)"
proof -
  assume "j < length EXCEL_FORMATS"
  then have "j = 0 \<or> j = 1" unfolding length_formats by arith
  then show ?thesis
  proof
    assume "j = 0"
    then show ?thesis by (simp add: formats_0 layout_matches_def unknown_frame_def)
  next
    assume "j = 1"
    then show ?thesis by (simp add: formats_1 layout_matches_def unknown_frame_def)
  qed
qed

theorem name_based_classification_witness:
  "layout_matches (columns both_formats_frame) (EXCEL_FORMATS ! 0)
   \<and> layout_matches (columns both_formats_frame) (EXCEL_FORMATS ! 1)
   \<and> fst (detect_excel_format both_formats_frame) = Some [0x8FB9, 0x5761, 0x68C0, 0x67E5, 0x8868]
   \<and> \<not> layout_matches (columns unknown_frame) (EXCEL_FORMATS ! 0)
   \<and> \<not> layout_matches (columns unknown_frame) (EXCEL_FORMATS ! 1)
   \<and> detect_excel_format unknown_frame = (None, columns unknown_frame)
   \<and> columns_to_extract (Some [Name [98]]) (snd (detect_excel_format unknown_frame)) =
       [Name [98]]"
proof -
  have m0: "layout_matches (columns both_formats_frame) (EXCEL_FORMATS ! 0)"
    by (simp add: formats_0 layout_matches_def both_formats_frame_def)
  have m1: "layout_matches (columns both_formats_frame) (EXCEL_FORMATS ! 1)"
    by (simp add: formats_1 layout_matches_def both_formats_frame_def)
  have h1: "0 < length EXCEL_FORMATS \<and> layout_matches (columns both_formats_frame) (EXCEL_FORMATS ! 0)
      \<and> (\<forall>j<0. \<not> layout_matches (columns both_formats_frame) (EXCEL_FORMATS ! j))"
    using m0 by (simp add: length_formats)
  have h2: "\<forall>j<length EXCEL_FORMATS. \<not> layout_matches (columns unknown_frame) (EXCEL_FORMATS ! j)"
    using unknown_no_match by blast
  have n0: "\<not> layout_matches (columns unknown_frame) (EXCEL_FORMATS ! 0)"
    and n1: "\<not> layout_matches (columns unknown_frame) (EXCEL_FORMATS ! 1)"
    using unknown_no_match by (simp_all add: length_formats)
  note t = name_based_classification [of 0 both_formats_frame unknown_frame "Some [Name [98]]"]
  from t h1 have d: "fst (detect_excel_format both_formats_frame) =
      Some [0x8FB9, 0x5761, 0x68C0, 0x67E5, 0x8868]"
    by (simp add: formats_0)
  from t h2 have u: "detect_excel_format unknown_frame = (None, columns unknown_frame)"
    by blast
  from t h2 have "columns_to_extract (Some [Name [98]]) (snd (detect_excel_format unknown_frame)) =
      (case Some [Name [98]] of
         None \<Rightarrow> columns unknown_frame
       | Some cs \<Rightarrow> if cs = [] then columns unknown_frame else cs)"
    by blast
  then have c: "columns_to_extract (Some [Name [98]]) (snd (detect_excel_format unknown_frame)) =
       [Name [98]]"
    by simp
  from m0 m1 d n0 n1 u c show ?thesis by blast
qed

lemma source_unknown:
  "data_file_base64 d = Some [6] \<Longrightarrow> read_source sample_env d = (Some (Inr unknown_frame), [])"
  by (simp add: read_source_def read_excel_from_base64_def decode_sample read_unknown)

text \<open>
  C7 as stated fails when the caller supplies an empty list of columns for a file that
  no layout matches: the handler does not take the supplied list but all the columns of
  the header, and answers with both of them extracted.
\<close>

theorem name_based_classification_counterexample:
  "data_columns empty_columns_data = Some []
   \<and> fst (detect_excel_format unknown_frame) = None
   \<and> columns_to_extract (data_columns empty_columns_data) (snd (detect_excel_format unknown_frame)) =
       [Name [97], Name [98]]
   \<and> reply_columns (fst (fst (extract_excel_flask sample_env (JsonObject empty_columns_data)))) =
       Some [Name [97], Name [98]]
   \<and> snd (fst (extract_excel_flask sample_env (JsonObject empty_columns_data))) = 200"
proof -
  have s: "read_source sample_env empty_columns_data = (Some (Inr unknown_frame), [])"
    by (rule source_unknown) (simp add: empty_columns_data_def)
  have c: "columns_to_extract (data_columns empty_columns_data) [Name [97], Name [98]] =
      [Name [97], Name [98]]"
    by (simp add: columns_to_extract_def empty_columns_data_def)
  have a: "available_columns unknown_frame [Name [97], Name [98]] = [Name [97], Name [98]]"
    by (simp add: available_columns_def unknown_frame_def)
  have f: "extract_from_frame sample_env (data_columns empty_columns_data) unknown_frame =
      Inr (Extracted (extracted_message 1) FORMAT_UNRECOGNISED [Name [97], Name [98]] 1 [80, 75],
           200)"
    unfolding extract_from_frame_def detect_unknown prod.case c a
    by (simp add: to_excel_sample encode_sample or_default_def select_columns_def len_df_def
        unknown_frame_def)
  have r: "extract_excel_flask sample_env (JsonObject empty_columns_data) =
      ((Extracted (extracted_message 1) FORMAT_UNRECOGNISED [Name [97], Name [98]] 1 [80, 75],
        200), [])"
    by (simp add: extract_excel_flask_def s f)
  show ?thesis
    unfolding r detect_unknown by (simp add: c) (simp add: empty_columns_data_def)
qed

subsection \<open>No column of the selection is in the file\<close>

lemma no_available_columns:
  "available_columns df cols = [] \<longleftrightarrow> set cols \<inter> set (columns df) = {}"
  by (auto simp: available_columns_def filter_empty_conv)

text \<open>
  C8. In the name-based service, when the file is read and none of the columns to
  extract (the list the caller supplied, or else the default of the detected format or
  of the header) is a column of the header, the handler answers with status 400, a
  client error, \<open>success\<close> false and a message that ends with the list of the columns
  of the file; this reply is not the reply of a successful extraction.
\<close>

theorem empty_selection:
  assumes "read_source e d = (Some (Inr df), fetched)"
    and "set (columns_to_extract (data_columns d) (snd (detect_excel_format df))) \<inter>
           set (columns df) = {}"
  shows "extract_excel_flask e (JsonObject d) =
           ((Failed (MSG_COLUMNS_NOT_FOUND @ repr_labels e (columns df)), 400), fetched)
       \<and> client_error (snd (fst (extract_excel_flask e (JsonObject d))))
       \<and> \<not> reply_success (fst (fst (extract_excel_flask e (JsonObject d))))
       \<and> reply_row_count (fst (fst (extract_excel_flask e (JsonObject d)))) = None"
proof -
  obtain detected default_columns where dt: "detect_excel_format df = (detected, default_columns)"
    by (cases "detect_excel_format df")
  from assms(2) have "available_columns df (columns_to_extract (data_columns d) default_columns) = []"
    by (simp add: no_available_columns dt)
  then have "extract_from_frame e (data_columns d) df =
      Inr (Failed (MSG_COLUMNS_NOT_FOUND @ repr_labels e (columns df)), 400)"
    by (simp add: extract_from_frame_def dt)
  then have r: "extract_excel_flask e (JsonObject d) =
      ((Failed (MSG_COLUMNS_NOT_FOUND @ repr_labels e (columns df)), 400), fetched)"
    by (simp add: extract_excel_flask_def assms(1))
  show ?thesis unfolding r by (simp add: client_error_def)
qed

theorem empty_selection_witness:
  "read_source sample_env absent_column_data = (Some (Inr unknown_frame), [])
   \<and> set (columns_to_extract (data_columns absent_column_data)
             (snd (detect_excel_format unknown_frame))) \<inter> set (columns unknown_frame) = {}
   \<and> extract_excel_flask sample_env (JsonObject absent_column_data) =
       ((Failed (MSG_COLUMNS_NOT_FOUND @ [97, 98]), 400), [])"
proof -
  have s: "read_source sample_env absent_column_data = (Some (Inr unknown_frame), [])"
    by (rule source_unknown) (simp add: absent_column_data_def)
  have c: "set (columns_to_extract (data_columns absent_column_data)
             (snd (detect_excel_format unknown_frame))) \<inter> set (columns unknown_frame) = {}"
    by (simp add: columns_to_extract_def absent_column_data_def unknown_frame_def)
  have p: "repr_labels sample_env (columns unknown_frame) = [97, 98]"
    by (simp add: sample_env_def unknown_frame_def)
  from empty_selection [OF s c] have "extract_excel_flask sample_env (JsonObject absent_column_data) =
       ((Failed (MSG_COLUMNS_NOT_FOUND @ repr_labels sample_env (columns unknown_frame)), 400), [])"
    by (rule conjunct1)
  with s c show ?thesis unfolding p by blast
qed

subsection \<open>The two shapes of a response\<close>

lemma failure_is_empty: "empty_failure (failure_response e x)"
  by (simp add: empty_failure_def failure_response_def)

lemma no_data_is_empty: "empty_failure (no_data_response fmt)"
  by (simp add: empty_failure_def no_data_response_def)

lemma filename_nonempty: "make_filename fmt stamp \<noteq> []"
  by (simp add: make_filename_def)

lemma respond_shapes:
  assumes "encodes_nonempty e" and "respond e t fmt = Inr r"
  shows "empty_failure r
       \<or> (fully_populated r \<and> column_names r = columns t \<and> row_count r = len_df t
          \<and> format_type r = fmt)"
proof (cases "len_df t = 0")
  case True
  with assms(2) have "r = no_data_response fmt" by (simp add: respond_def)
  then show ?thesis by (simp add: no_data_is_empty)
next
  case False
  show ?thesis
  proof (cases "to_excel e t")
    case (Inl x)
    with assms(2) False show ?thesis by (simp add: respond_def)
  next
    case (Inr excel_bytes)
    with assms(1) have "b64encode e excel_bytes \<noteq> []"
      by (simp add: encodes_nonempty_def)
    moreover from assms(2) False Inr have
      "r = \<lparr>success = True, format_type = fmt, row_count = len_df t,
            file_base64 = b64encode e excel_bytes,
            filename = make_filename fmt (now_stamp e),
            message = success_message fmt (len_df t),
            column_names = columns t\<rparr>"
      by (simp add: respond_def)
    ultimately show ?thesis by (simp add: fully_populated_def filename_nonempty)
  qed
qed

lemma shapes_exclusive: "\<not> (fully_populated r \<and> empty_failure r)"
  by (simp add: fully_populated_def empty_failure_def)

text \<open>
  C9. Provided the library never encodes a written workbook to the empty text, every
  response of the position-based handler has one of two shapes, and never both: either
  \<open>success\<close> is true, the encoded file and the file name are not empty, and the column
  names, the row count and the format are those of the table that was extracted from the
  bytes of the request; or \<open>success\<close> is false, the encoded file and the file name are
  empty, there are no column names and the row count is 0.
\<close>

theorem response_never_partial:
  assumes "encodes_nonempty e"
  shows "((fully_populated (fst (extract_excel e request))
           \<and> (\<exists>file_content t lay.
                 fst (get_file_content e request) = Inr file_content
               \<and> extract_table e file_content = Inr (t, lay)
               \<and> column_names (fst (extract_excel e request)) = columns t
               \<and> row_count (fst (extract_excel e request)) = len_df t
               \<and> format_type (fst (extract_excel e request)) = format_name lay))
          \<or> empty_failure (fst (extract_excel e request)))
       \<and> \<not> (fully_populated (fst (extract_excel e request))
            \<and> empty_failure (fst (extract_excel e request)))"
proof -
  obtain c fetched where g: "get_file_content e request = (c, fetched)"
    by (cases "get_file_content e request")
  have "(fully_populated (fst (extract_excel e request))
           \<and> (\<exists>file_content t lay.
                 fst (get_file_content e request) = Inr file_content
               \<and> extract_table e file_content = Inr (t, lay)
               \<and> column_names (fst (extract_excel e request)) = columns t
               \<and> row_count (fst (extract_excel e request)) = len_df t
               \<and> format_type (fst (extract_excel e request)) = format_name lay))
          \<or> empty_failure (fst (extract_excel e request))"
  proof (cases c)
    case (Inl x)
    with g show ?thesis by (simp add: extract_excel_def failure_is_empty)
  next
    case content: (Inr file_content)
    show ?thesis
    proof (cases "extract_table e file_content")
      case (Inl x)
      with g content show ?thesis by (simp add: extract_excel_def failure_is_empty)
    next
      case (Inr p)
      obtain t lay where p: "p = (t, lay)" by (cases p)
      show ?thesis
      proof (cases "respond e t (format_name lay)")
        case (Inl x)
        with g content Inr p show ?thesis by (simp add: extract_excel_def failure_is_empty)
      next
        case resp: (Inr r)
        with g content Inr p have r: "fst (extract_excel e request) = r"
          by (simp add: extract_excel_def)
        from respond_shapes [OF assms resp] g content Inr p show ?thesis
          unfolding r by auto
      qed
    qed
  qed
  then show ?thesis using shapes_exclusive by blast
qed

lemma encodes_nonempty_sample: "encodes_nonempty sample_env"
  by (simp add: encodes_nonempty_def sample_env_def)

lemma read_points_raw:
  "\<exists>c cs r rs. read_excel sample_env [1] HeaderNone 0 =
      Inr \<lparr>columns = c # cs, rows = (survey_title # r) # rs\<rparr>"
  by (simp add: sample_env_def sample_grid_def frame_of_grid_def blank_row_def upt_conv_Cons)

lemma numeric_text_sample: "numeric_text sample_env = digits_only"
  by (simp add: sample_env_def)

lemma extract_points:
  "extract_survey sample_env [1] =
     Inr \<lparr>columns = map Name SURVEY_NAMES,
          rows = [[Text [80, 49], Number 100, Number 200, Number 50],
                  [Text [80, 50], Number 110, Number 210, Number 51]]\<rparr>"
  by (simp add: extract_survey_def read_points points_frame_def iloc_col_def iloc_cols_def
      boolean_filter_def SURVEY_COLUMNS_def set_columns_def SURVEY_NAMES_def
      numeric_text_sample digits_only_def)

lemma extract_table_points:
  "extract_table sample_env [1] =
     Inr (\<lparr>columns = map Name SURVEY_NAMES,
           rows = [[Text [80, 49], Number 100, Number 200, Number 50],
                   [Text [80, 50], Number 110, Number 210, Number 51]]\<rparr>, SurveyResults)"
proof -
  from read_points_raw obtain c cs r rs where
    "read_excel sample_env [1] HeaderNone 0 =
       Inr \<lparr>columns = c # cs, rows = (survey_title # r) # rs\<rparr>"
    by blast
  then show ?thesis
    by (simp add: extract_table_def classify_title extract_points)
qed

lemma content_inline_and_url:
  "get_file_content sample_env inline_and_url_request = (Inr [1], [])"
  by (simp add: get_file_content_def inline_and_url_request_def sample_env_def)

lemma success_inline_and_url:
  "success (fst (extract_excel sample_env inline_and_url_request))"
  by (simp add: extract_excel_def content_inline_and_url extract_table_points respond_def
      len_df_def to_excel_sample)

theorem response_never_partial_witness:
  "encodes_nonempty sample_env
   \<and> success (fst (extract_excel sample_env inline_and_url_request))
   \<and> ExtractResponse.file_base64 (fst (extract_excel sample_env inline_and_url_request)) \<noteq> []
   \<and> filename (fst (extract_excel sample_env inline_and_url_request)) \<noteq> []
   \<and> column_names (fst (extract_excel sample_env inline_and_url_request)) = map Name SURVEY_NAMES
   \<and> row_count (fst (extract_excel sample_env inline_and_url_request)) = 2"
proof -
  let ?r = "fst (extract_excel sample_env inline_and_url_request)"
  have n: "\<not> empty_failure ?r"
    using success_inline_and_url by (simp add: empty_failure_def)
  from response_never_partial [OF encodes_nonempty_sample, of inline_and_url_request] n
  obtain file_content t lay where f: "fully_populated ?r"
    and c: "fst (get_file_content sample_env inline_and_url_request) = Inr file_content"
    and x: "extract_table sample_env file_content = Inr (t, lay)"
    and cols: "column_names ?r = columns t"
    and cnt: "row_count ?r = len_df t"
    by blast
  from c have "file_content = [1]" by (simp add: content_inline_and_url)
  with x have "t = \<lparr>columns = map Name SURVEY_NAMES,
           rows = [[Text [80, 49], Number 100, Number 200, Number 50],
                   [Text [80, 50], Number 110, Number 210, Number 51]]\<rparr>"
    by (simp add: extract_table_points)
  with cols cnt have "column_names ?r = map Name SURVEY_NAMES" and "row_count ?r = 2"
    by (simp_all add: len_df_def)
  with f encodes_nonempty_sample show ?thesis
    by (simp add: fully_populated_def)
qed

subsection \<open>Validation of the request\<close>

text \<open>
  C10. In the position-based service a body without the key \<open>file_url\<close> does not pass
  the validation of the request: the endpoint answers 422, the handler does not run and
  no URL is requested, whether or not the body holds \<open>file_base64\<close>. The handler itself
  would not have looked at the URL: on a request whose inline file is not empty it
  decodes that text, whatever the URL is.
\<close>

theorem url_required:
  assumes "body_file_url body = None"
  shows "validate_request body = None
       \<and> post_extract e body = (Unprocessable422, [])
       \<and> (b \<noteq> [] \<longrightarrow>
            get_file_content e \<lparr>file_url = u, file_base64 = Some b\<rparr> = (b64decode e b, []))"
  using assms by (simp add: validate_request_def post_extract_def get_file_content_def)

theorem url_required_witness:
  "body_file_url inline_only_body = None
   \<and> body_file_base64 inline_only_body = Some (JString [1])
   \<and> post_extract sample_env inline_only_body = (Unprocessable422, [])
   \<and> [1::nat] \<noteq> []
   \<and> get_file_content sample_env \<lparr>file_url = [], file_base64 = Some [1]\<rparr> =
       (b64decode sample_env [1], [])"
proof -
  have h: "body_file_url inline_only_body = None"
    by (simp add: inline_only_body_def)
  have b: "body_file_base64 inline_only_body = Some (JString [1])"
    by (simp add: inline_only_body_def)
  have n: "[1::nat] \<noteq> []" by simp
  from url_required [OF h, of sample_env "[1]" "[]"] h b n show ?thesis by blast
qed

end
